theory Spec2Isabelle
  imports Main
begin

section \<open>Request values\<close>

text \<open>
  The handlers of \<^verbatim>\<open>app.py\<close> read their parameters from a JSON object. A value of that
  object is a string or \<^verbatim>\<open>null\<close> here (Python's \<^verbatim>\<open>None\<close>); numbers, booleans, lists
  and nested objects are left out. A request body is a partial map from keys to values,
  and \<^verbatim>\<open>data.get(key, default)\<close> is \<open>dict_get\<close>.
\<close>

datatype jval = JNull | JStr string

type_synonym body = "string \<rightharpoonup> jval"

definition dict_get :: "body \<Rightarrow> string \<Rightarrow> jval \<Rightarrow> jval" where
  "dict_get data k dflt = (case data k of None \<Rightarrow> dflt | Some v \<Rightarrow> v)"

text \<open>Python's truth value of a request value: \<^verbatim>\<open>None\<close> and the empty string are false.\<close>

fun truthy :: "jval \<Rightarrow> bool" where
  "truthy JNull = False"
| "truthy (JStr s) = (s \<noteq> [])"

text \<open>\<^verbatim>\<open>str(v)\<close>, as an f-string formats a value.\<close>

fun str :: "jval \<Rightarrow> string" where
  "str JNull = ''None''"
| "str (JStr s) = s"

text \<open>
  \<^verbatim>\<open>s.lower()\<close> on the ASCII letters. A character here is a byte; no character outside
  ASCII lowers to one of the letters of the codec names compared below.
\<close>

definition lower_char :: "char \<Rightarrow> char" where
  "lower_char c =
     (let n = (of_char c :: nat) in if 65 \<le> n \<and> n \<le> 90 then char_of (n + 32) else c)"

definition lower :: "string \<Rightarrow> string" where
  "lower s = map lower_char s"

text \<open>\<^verbatim>\<open>sep.join(xs)\<close>.\<close>

fun join :: "string \<Rightarrow> string list \<Rightarrow> string" where
  "join sep [] = []"
| "join sep [x] = x"
| "join sep (x # y # ys) = x @ sep @ join sep (y # ys)"

text \<open>
  \<^verbatim>\<open>os.path.join(folder, name)\<close> on POSIX, for a folder name that is not empty and does
  not end in a slash (the two folders of the configuration): an absolute \<open>name\<close> replaces
  the folder.
\<close>

definition path_join :: "string \<Rightarrow> string \<Rightarrow> string" where
  "path_join folder name =
     (case name of
        c # cs \<Rightarrow> if c = CHR ''/'' then name else folder @ ''/'' @ name
      | [] \<Rightarrow> folder @ ''/'')"

definition UPLOAD_FOLDER :: string where
  "UPLOAD_FOLDER = ''uploads''"

definition TRANSCODED_FOLDER :: string where
  "TRANSCODED_FOLDER = ''transcoded''"

section \<open>The engine invocation\<close>

text \<open>An exception is represented by its text, \<^verbatim>\<open>str(e)\<close>, which is all the code reads of it.\<close>

type_synonym exn = string

definition none_lower_error :: exn where
  "none_lower_error =
     [CHR 0x27] @ ''NoneType'' @ [CHR 0x27] @ '' object has no attribute '' @
     [CHR 0x27] @ ''lower'' @ [CHR 0x27]"

text \<open>
  The list \<^verbatim>\<open>video_filters\<close> of \<^verbatim>\<open>transcode_video_cpu_intensive\<close>: the scale filter of
  the target resolution, when there is one, then the three enhancement filters.
\<close>

definition video_filters :: "jval \<Rightarrow> string list" where
  "video_filters target_resolution =
     (if truthy target_resolution then
        (if target_resolution = JStr ''4K'' then [''scale=3840:2160:flags=lanczos'']
         else if target_resolution = JStr ''1080p'' then [''scale=1920:1080:flags=lanczos'']
         else if target_resolution = JStr ''720p'' then [''scale=1280:720:flags=lanczos'']
         else if target_resolution = JStr ''480p'' then [''scale=854:480:flags=lanczos'']
         else [])
      else []) @
     [''unsharp=5:5:1.0:5:5:0.0'',
      ''eq=contrast=1.1:brightness=0.02:saturation=1.1'',
      ''hqdn3d=4:3:6:4.5'']"

text \<open>
  The codec settings chosen by \<^verbatim>\<open>target_format.lower()\<close>; the call raises an
  \<^verbatim>\<open>AttributeError\<close> on \<^verbatim>\<open>None\<close>. A format that is none of the three adds nothing.
\<close>

definition codec_settings :: "jval \<Rightarrow> exn + string list" where
  "codec_settings target_format =
     (case target_format of
        JNull \<Rightarrow> Inl none_lower_error
      | JStr f \<Rightarrow> Inr
         (if lower f = ''h264'' then
            [''-c:v'', ''libx264'', ''-preset'', ''veryslow'', ''-crf'', ''18'',
             ''-x264-params'', ''me=umh:subme=10:ref=16:b-adapt=2:direct=auto:weightp=2'']
          else if lower f = ''h265'' then
            [''-c:v'', ''libx265'', ''-preset'', ''veryslow'', ''-crf'', ''20'',
             ''-x265-params'', ''me=3:subme=4:ref=6:b-adapt=2'']
          else if lower f = ''vp9'' then
            [''-c:v'', ''libvpx-vp9'', ''-crf'', ''20'', ''-b:v'', ''0'', ''-cpu-used'', ''0'']
          else []))"

text \<open>The command \<^verbatim>\<open>cmd\<close> as it stands when \<^verbatim>\<open>subprocess.run\<close> is called.\<close>

definition build_cmd :: "string \<Rightarrow> string \<Rightarrow> jval \<Rightarrow> jval \<Rightarrow> jval \<Rightarrow> exn + string list" where
  "build_cmd input_path output_path target_format target_resolution target_bitrate =
     (let cmd = [''ffmpeg'', ''-i'', input_path, ''-y''];
          cmd = (if video_filters target_resolution \<noteq> []
                 then cmd @ [''-vf'', join '','' (video_filters target_resolution)]
                 else cmd)
      in case codec_settings target_format of
           Inl e \<Rightarrow> Inl e
         | Inr codec \<Rightarrow>
             Inr (cmd @ codec @ [''-c:a'', ''aac'', ''-b:a'', ''128k''] @
                  (if truthy target_bitrate then [''-b:v'', str target_bitrate] else []) @
                  [output_path]))"

section \<open>The store\<close>

text \<open>
  The table \<^verbatim>\<open>videos\<close> (the two columns the job handlers read) and the table
  \<^verbatim>\<open>transcoding_jobs\<close>, with the field names the listing queries use (\<^verbatim>\<open>v.\<close> and
  \<^verbatim>\<open>j.\<close>). A column that may be \<^verbatim>\<open>NULL\<close> is an option. Timestamps are clock readings
  in seconds; \<^verbatim>\<open>processing_time\<close>, a difference of two readings of \<^verbatim>\<open>time.time()\<close>, is
  a difference of clock ticks.
\<close>

datatype status = Queued | Processing | Completed | Failed

record video =
  v_user_id :: nat
  v_filename :: string

record job =
  j_user_id :: nat
  j_video_id :: string
  j_target_format :: jval
  j_target_resolution :: jval
  j_target_bitrate :: jval
  j_status :: status
  j_progress :: int
  j_result_filename :: "string option"
  j_created_at :: nat
  j_started_at :: "nat option"
  j_completed_at :: "nat option"
  j_processing_time :: "int option"
  j_error_message :: "string option"

text \<open>
  A task handed to the executor: the arguments of \<^verbatim>\<open>transcode_video_cpu_intensive\<close>
  (input path, output path, target format, target resolution, target bitrate, job id).
\<close>

datatype task = Task string string jval jval jval string

text \<open>
  The state the handlers share: the two tables, the tasks submitted to the executor in
  submission order, and the files present in the folder of transcoded videos.
\<close>

record state =
  videos :: "string \<rightharpoonup> video"
  jobs :: "string \<rightharpoonup> job"
  backlog :: "task list"
  transcoded_files :: "string set"

definition unique_id_error :: exn where
  "unique_id_error = ''UNIQUE constraint failed: transcoding_jobs.id''"

definition not_null_error :: exn where
  "not_null_error = ''NOT NULL constraint failed: transcoding_jobs.target_format''"

text \<open>
  The \<^verbatim>\<open>INSERT INTO transcoding_jobs\<close> of both submission handlers. The columns it does
  not name take their defaults (\<^verbatim>\<open>status\<close> queued, \<^verbatim>\<open>progress\<close> 0, \<^verbatim>\<open>created_at\<close> the
  current time, the others \<^verbatim>\<open>NULL\<close>). The statement raises when the format is \<^verbatim>\<open>NULL\<close>
  (the column is \<^verbatim>\<open>NOT NULL\<close>) or the id exists (it is the primary key).
\<close>

definition insert_job ::
  "state \<Rightarrow> nat \<Rightarrow> string \<Rightarrow> nat \<Rightarrow> string \<Rightarrow> jval \<Rightarrow> jval \<Rightarrow> jval \<Rightarrow> string \<Rightarrow> exn + state" where
  "insert_job s now job_id uid vid fmt res br result_name =
     (if fmt = JNull then Inl not_null_error
      else if jobs s job_id \<noteq> None then Inl unique_id_error
      else Inr (s\<lparr>jobs := (jobs s)(job_id \<mapsto>
        \<lparr>j_user_id = uid, j_video_id = vid, j_target_format = fmt,
         j_target_resolution = res, j_target_bitrate = br, j_status = Queued,
         j_progress = 0, j_result_filename = Some result_name, j_created_at = now,
         j_started_at = None, j_completed_at = None, j_processing_time = None,
         j_error_message = None\<rparr>)\<rparr>))"

text \<open>
  The three \<^verbatim>\<open>UPDATE transcoding_jobs ... WHERE id = ?\<close> statements of the invoker. Each
  one writes its columns whatever the row holds; with no row of that id it changes
  nothing.
\<close>

definition update_job :: "state \<Rightarrow> string \<Rightarrow> (job \<Rightarrow> job) \<Rightarrow> state" where
  "update_job s job_id f =
     (case jobs s job_id of
        None \<Rightarrow> s
      | Some j \<Rightarrow> s\<lparr>jobs := (jobs s)(job_id \<mapsto> f j)\<rparr>)"

definition set_processing :: "state \<Rightarrow> string \<Rightarrow> nat \<Rightarrow> state" where
  "set_processing s job_id ts =
     update_job s job_id (\<lambda>j. j\<lparr>j_status := Processing, j_started_at := Some ts\<rparr>)"

definition set_completed :: "state \<Rightarrow> string \<Rightarrow> nat \<Rightarrow> int \<Rightarrow> state" where
  "set_completed s job_id ts elapsed =
     update_job s job_id (\<lambda>j. j\<lparr>j_status := Completed, j_progress := 100,
       j_completed_at := Some ts, j_processing_time := Some elapsed\<rparr>)"

definition set_failed :: "state \<Rightarrow> string \<Rightarrow> string \<Rightarrow> state" where
  "set_failed s job_id msg =
     update_job s job_id (\<lambda>j. j\<lparr>j_status := Failed, j_error_message := Some msg\<rparr>)"

text \<open>
  The ownership query of the submission handlers: the stored file name of the video,
  for an admin whoever owns it, for anyone else only when they own it.
\<close>

definition select_video :: "state \<Rightarrow> nat \<Rightarrow> string \<Rightarrow> string \<Rightarrow> string option" where
  "select_video s current_user_id current_user_role vid =
     (case videos s vid of
        None \<Rightarrow> None
      | Some v \<Rightarrow>
          if current_user_role = ''admin'' \<or> v_user_id v = current_user_id
          then Some (v_filename v) else None)"

text \<open>
  The executor is \<^verbatim>\<open>ThreadPoolExecutor(max_workers=4)\<close>: at most four of the tasks handed
  to it are executed at the same time.
\<close>

definition max_workers :: nat where
  "max_workers = 4"

text \<open>\<^verbatim>\<open>executor.submit\<close>: the task joins the executor's queue, behind the tasks already there.\<close>

definition submit :: "state \<Rightarrow> task \<Rightarrow> state" where
  "submit s t = s\<lparr>backlog := backlog s @ [t]\<rparr>"

section \<open>The submission handlers\<close>

datatype response =
    Accepted string jval jval
  | BatchAccepted "string list"
  | SendFile string
  | BadRequest string
  | NotFound string
  | ServerError exn

text \<open>
  \<open>Accepted\<close> and \<open>BatchAccepted\<close> are the 202 answers (job id, format and resolution; the
  list of job ids), \<open>SendFile\<close> the 200 answer that carries a file, \<open>BadRequest\<close> and
  \<open>NotFound\<close> the 400 and 404 answers with their message, \<open>ServerError\<close> an exception that
  leaves the handler.
\<close>

definition valid_formats :: "jval list" where
  "valid_formats = [JStr ''h264'', JStr ''h265'', JStr ''vp9'']"

definition valid_resolutions :: "jval list" where
  "valid_resolutions = [JStr ''480p'', JStr ''720p'', JStr ''1080p'', JStr ''4K'']"

text \<open>The f-string \<^verbatim>\<open>{job_id}_{target_format}_{target_resolution}.mp4\<close>.\<close>

definition result_name :: "string \<Rightarrow> jval \<Rightarrow> jval \<Rightarrow> string" where
  "result_name job_id fmt res = job_id @ ''_'' @ str fmt @ ''_'' @ str res @ ''.mp4''"

text \<open>
  \<^verbatim>\<open>transcode_video\<close>, the handler of a single submission. \<open>now\<close> is the clock at the
  request and \<open>fresh_id\<close> the value \<^verbatim>\<open>uuid.uuid4()\<close> returns in it; \<open>data\<close> is the JSON
  object of the request.
\<close>

definition transcode_video ::
  "nat \<Rightarrow> string \<Rightarrow> state \<Rightarrow> nat \<Rightarrow> string \<Rightarrow> string \<Rightarrow> body \<Rightarrow> response \<times> state" where
  "transcode_video now fresh_id s current_user_id current_user_role vid data =
     (let target_format = dict_get data ''target_format'' (JStr ''h264'');
          target_resolution = dict_get data ''target_resolution'' (JStr ''720p'');
          target_bitrate = dict_get data ''target_bitrate'' (JStr ''2M'')
      in if target_format \<notin> set valid_formats then (BadRequest ''Invalid target format'', s)
         else if target_resolution \<notin> set valid_resolutions
           then (BadRequest ''Invalid target resolution'', s)
         else
           (case select_video s current_user_id current_user_role vid of
              None \<Rightarrow> (NotFound ''Video not found'', s)
            | Some filename \<Rightarrow>
                (let job_id = fresh_id;
                     result_filename = result_name job_id target_format target_resolution
                 in case insert_job s now job_id current_user_id vid target_format
                           target_resolution target_bitrate result_filename of
                      Inl e \<Rightarrow> (ServerError e, s)
                    | Inr s' \<Rightarrow>
                        (Accepted job_id target_format target_resolution,
                         submit s' (Task (path_join UPLOAD_FOLDER filename)
                                         (path_join TRANSCODED_FOLDER result_filename)
                                         target_format target_resolution target_bitrate
                                         job_id)))))"

text \<open>
  The loop of \<^verbatim>\<open>batch_transcode\<close> over \<^verbatim>\<open>video_ids\<close>. \<open>uuids i\<close> is the value
  \<^verbatim>\<open>uuid.uuid4()\<close> returns in iteration \<open>i\<close> (one is drawn for every video, also for a
  video that is skipped); \<open>job_ids\<close> is the list built so far. An exception of the
  \<^verbatim>\<open>INSERT\<close> leaves the loop; what earlier iterations committed stays.
\<close>

fun batch_loop ::
  "nat \<Rightarrow> (nat \<Rightarrow> string) \<Rightarrow> nat \<Rightarrow> nat \<Rightarrow> string \<Rightarrow> jval \<Rightarrow> jval \<Rightarrow> jval \<Rightarrow>
   string list \<Rightarrow> string list \<Rightarrow> state \<Rightarrow> (exn + string list) \<times> state" where
  "batch_loop now uuids i current_user_id current_user_role fmt res br [] job_ids s =
     (Inr job_ids, s)"
| "batch_loop now uuids i current_user_id current_user_role fmt res br (vid # rest) job_ids s =
     (let job_id = uuids i;
          result_filename = result_name job_id fmt res
      in case select_video s current_user_id current_user_role vid of
           None \<Rightarrow>
             batch_loop now uuids (Suc i) current_user_id current_user_role fmt res br
               rest job_ids s
         | Some filename \<Rightarrow>
             (case insert_job s now job_id current_user_id vid fmt res br result_filename of
                Inl e \<Rightarrow> (Inl e, s)
              | Inr s' \<Rightarrow>
                  batch_loop now uuids (Suc i) current_user_id current_user_role fmt res br
                    rest (job_ids @ [job_id])
                    (submit s' (Task (path_join UPLOAD_FOLDER filename)
                                     (path_join TRANSCODED_FOLDER result_filename)
                                     fmt res br job_id))))"

text \<open>
  \<^verbatim>\<open>batch_transcode\<close>. \<open>video_ids\<close> is the value of \<^verbatim>\<open>data.get('video_ids', [])\<close>, a
  list of video ids.
\<close>

definition batch_transcode ::
  "nat \<Rightarrow> (nat \<Rightarrow> string) \<Rightarrow> state \<Rightarrow> nat \<Rightarrow> string \<Rightarrow> string list \<Rightarrow> body \<Rightarrow> response \<times> state" where
  "batch_transcode now uuids s current_user_id current_user_role video_ids data =
     (let target_format = dict_get data ''target_format'' (JStr ''h264'');
          target_resolution = dict_get data ''target_resolution'' (JStr ''720p'');
          target_bitrate = dict_get data ''target_bitrate'' (JStr ''2M'')
      in if video_ids = [] then (BadRequest ''No video IDs provided'', s)
         else
           (case batch_loop now uuids 0 current_user_id current_user_role target_format
                   target_resolution target_bitrate video_ids [] s of
              (Inl e, s') \<Rightarrow> (ServerError e, s')
            | (Inr job_ids, s') \<Rightarrow> (BatchAccepted job_ids, s')))"

text \<open>
  The batch submission as the specification words it: the single submission, once for
  every video of the list in order, with the target of the batch request; the id of every
  accepted submission is collected, a video whose submission is rejected is skipped.
\<close>

fun SubmitBatch_spec ::
  "nat \<Rightarrow> (nat \<Rightarrow> string) \<Rightarrow> nat \<Rightarrow> nat \<Rightarrow> string \<Rightarrow> body \<Rightarrow> string list \<Rightarrow> string list \<Rightarrow> state \<Rightarrow>
   string list \<times> state" where
  "SubmitBatch_spec now uuids i current_user_id current_user_role data [] job_ids s =
     (job_ids, s)"
| "SubmitBatch_spec now uuids i current_user_id current_user_role data (vid # rest) job_ids s =
     (case transcode_video now (uuids i) s current_user_id current_user_role vid data of
        (Accepted job_id f r, s') \<Rightarrow>
          SubmitBatch_spec now uuids (Suc i) current_user_id current_user_role data rest
            (job_ids @ [job_id]) s'
      | (_, s') \<Rightarrow>
          SubmitBatch_spec now uuids (Suc i) current_user_id current_user_role data rest
            job_ids s')"

text \<open>
  \<^verbatim>\<open>download_transcoded_video\<close>: the query selects the result file name of a completed
  job of that id (of that owner too, unless the requester is an admin); the file is sent
  when the name is there and the file exists. The handler writes nothing.
\<close>

definition download_transcoded_video ::
  "state \<Rightarrow> nat \<Rightarrow> string \<Rightarrow> string \<Rightarrow> response \<times> state" where
  "download_transcoded_video s current_user_id current_user_role job_id =
     (let result =
            (case jobs s job_id of
               None \<Rightarrow> None
             | Some j \<Rightarrow>
                 if j_status j = Completed \<and>
                    (current_user_role = ''admin'' \<or> j_user_id j = current_user_id)
                 then Some (j_result_filename j) else None)
      in case result of
           None \<Rightarrow> (NotFound ''Transcoded video not found'', s)
         | Some None \<Rightarrow> (NotFound ''Transcoded video not found'', s)
         | Some (Some name) \<Rightarrow>
             if name = [] then (NotFound ''Transcoded video not found'', s)
             else
               (let file_path = path_join TRANSCODED_FOLDER name
                in if file_path \<in> transcoded_files s then (SendFile file_path, s)
                   else (NotFound ''File not found'', s)))"

section \<open>The run of a job\<close>

text \<open>
  What \<^verbatim>\<open>subprocess.run(cmd, capture_output=True, text=True)\<close> does: the engine exits
  with a return code and its diagnostic output, or the call itself raises (the engine is
  not installed, say).
\<close>

datatype engine_result = Exited int string | Raised exn

text \<open>
  What the surroundings do during one run of \<^verbatim>\<open>transcode_video_cpu_intensive\<close>: for
  every access to the store, the exception it raises if it raises one; the clock readings;
  the engine, as a function of the command. The accesses are, in program order, the
  connection at the start, the update to processing with its commit, the final update
  with its commit, and in the exception handler the connection and the update with its
  commit.
\<close>

record run_env =
  connect_raises :: "exn option"
  update_processing_raises :: "exn option"
  started_ts :: nat
  start_time :: int
  engine :: "string list \<Rightarrow> engine_result"
  end_time :: int
  completed_ts :: nat
  update_final_raises :: "exn option"
  handler_connect_raises :: "exn option"
  handler_update_raises :: "exn option"

text \<open>
  The \<^verbatim>\<open>try\<close> block. The result is the list of store states the block commits, in order,
  and the exception that leaves the block, if one does. The run is taken on its own: what
  other handlers and other runs write between its commits is not interleaved. A run reads
  and writes the row of its own job only, which no other run writes.
\<close>

fun try_block :: "run_env \<Rightarrow> task \<Rightarrow> state \<Rightarrow> state list \<times> exn option" where
  "try_block env (Task input_path output_path fmt res br job_id) s =
     (case connect_raises env of
        Some e \<Rightarrow> ([], Some e)
      | None \<Rightarrow>
     (case update_processing_raises env of
        Some e \<Rightarrow> ([], Some e)
      | None \<Rightarrow>
     (let s1 = set_processing s job_id (started_ts env)
      in case build_cmd input_path output_path fmt res br of
        Inl e \<Rightarrow> ([s1], Some e)
      | Inr cmd \<Rightarrow>
     (case engine env cmd of
        Raised e \<Rightarrow> ([s1], Some e)
      | Exited returncode stderr \<Rightarrow>
     (case update_final_raises env of
        Some e \<Rightarrow> ([s1], Some e)
      | None \<Rightarrow>
          if returncode = 0
          then ([s1, set_completed s1 job_id (completed_ts env)
                       (end_time env - start_time env)], None)
          else ([s1, set_failed s1 job_id stderr], None))))))"

text \<open>
  The \<^verbatim>\<open>except Exception\<close> block, entered with the exception text and the store as it is:
  it writes the failure, unless its own connection or update raises, and then nothing is
  written and the exception leaves the task.
\<close>

definition except_block :: "run_env \<Rightarrow> string \<Rightarrow> exn \<Rightarrow> state \<Rightarrow> state list" where
  "except_block env job_id e s =
     (case handler_connect_raises env of
        Some e' \<Rightarrow> []
      | None \<Rightarrow>
     (case handler_update_raises env of
        Some e' \<Rightarrow> []
      | None \<Rightarrow> [set_failed s job_id e]))"

text \<open>
  \<^verbatim>\<open>transcode_video_cpu_intensive\<close>: the store states one run commits, in order. The store
  after the run is the last of them, or the store before the run when there is none.
\<close>

fun transcode_video_cpu_intensive :: "run_env \<Rightarrow> task \<Rightarrow> state \<Rightarrow> state list" where
  "transcode_video_cpu_intensive env (Task input_path output_path fmt res br job_id) s =
     (case try_block env (Task input_path output_path fmt res br job_id) s of
        (committed, None) \<Rightarrow> committed
      | (committed, Some e) \<Rightarrow> committed @ except_block env job_id e (last (s # committed)))"

definition store_after :: "run_env \<Rightarrow> task \<Rightarrow> state \<Rightarrow> state" where
  "store_after env t s = last (s # transcode_video_cpu_intensive env t s)"

text \<open>
  One schedule of the executor: the tasks of its queue are executed one after another,
  each to its end, in the order of their submission, each under the same surroundings. No
  two tasks are executed at the same time in it.
\<close>

definition run_in_turn :: "run_env \<Rightarrow> state \<Rightarrow> state" where
  "run_in_turn env s = foldl (\<lambda>st t. store_after env t st) s (backlog s)"

declare try_block.simps [simp del] transcode_video_cpu_intensive.simps [simp del]

section \<open>Example inputs\<close>

text \<open>
  A store with three uploaded videos, the second one of another user, and no job; the
  job ids drawn in a batch; the surroundings of a run in which every store access
  succeeds and the engine exits with code 0 after seven seconds.
\<close>

definition demo_store :: state where
  "demo_store =
     \<lparr>videos = [''v1'' \<mapsto> \<lparr>v_user_id = 1, v_filename = ''a.mp4''\<rparr>,
                ''v2'' \<mapsto> \<lparr>v_user_id = 2, v_filename = ''b.mp4''\<rparr>,
                ''v3'' \<mapsto> \<lparr>v_user_id = 1, v_filename = ''c.mp4''\<rparr>],
      jobs = Map.empty, backlog = [], transcoded_files = {}\<rparr>"

definition demo_uuids :: "nat \<Rightarrow> string" where
  "demo_uuids i = replicate (Suc i) CHR ''j''"

definition demo_env :: run_env where
  "demo_env =
     \<lparr>connect_raises = None, update_processing_raises = None, started_ts = 10,
      start_time = 10000, engine = (\<lambda>cmd. Exited 0 []), end_time = 17000,
      completed_ts = 17, update_final_raises = None, handler_connect_raises = None,
      handler_update_raises = None\<rparr>"

text \<open>
  The store after user 1 has submitted video \<open>v1\<close> with an empty request object, the
  task that submission hands to the executor, and the store after that task has run and
  the engine has written its output file.
\<close>

definition demo_task :: task where
  "demo_task = Task ''uploads/a.mp4'' ''transcoded/j_h264_720p.mp4''
     (JStr ''h264'') (JStr ''720p'') (JStr ''2M'') ''j''"

definition demo_submitted :: state where
  "demo_submitted = snd (transcode_video 0 ''j'' demo_store 1 ''user'' ''v1'' Map.empty)"

definition demo_completed :: state where
  "demo_completed =
     (store_after demo_env demo_task demo_submitted)
       \<lparr>transcoded_files := {''transcoded/j_h264_720p.mp4''}\<rparr>"

text \<open>
  A store with five uploaded videos of user 1 and no job, the store after user 1 has
  submitted the five in one batch, and the surroundings of a run in which the database is
  locked (SQLite gives up waiting for the write lock and raises) at the final update and
  again at the update of the exception handler.
\<close>

definition demo_store_five :: state where
  "demo_store_five =
     \<lparr>videos = [''v1'' \<mapsto> \<lparr>v_user_id = 1, v_filename = ''a.mp4''\<rparr>,
                ''v2'' \<mapsto> \<lparr>v_user_id = 1, v_filename = ''b.mp4''\<rparr>,
                ''v3'' \<mapsto> \<lparr>v_user_id = 1, v_filename = ''c.mp4''\<rparr>,
                ''v4'' \<mapsto> \<lparr>v_user_id = 1, v_filename = ''d.mp4''\<rparr>,
                ''v5'' \<mapsto> \<lparr>v_user_id = 1, v_filename = ''e.mp4''\<rparr>],
      jobs = Map.empty, backlog = [], transcoded_files = {}\<rparr>"

definition demo_env_locked :: run_env where
  "demo_env_locked =
     demo_env\<lparr>update_final_raises := Some ''database is locked'',
              handler_update_raises := Some ''database is locked''\<rparr>"

definition demo_five_submitted :: state where
  "demo_five_submitted =
     snd (batch_transcode 0 demo_uuids demo_store_five 1 ''user''
            [''v1'', ''v2'', ''v3'', ''v4'', ''v5''] Map.empty)"

section \<open>Store updates and the shape of a run\<close>

lemmas handler_defs = transcode_video_def batch_transcode_def dict_get_def valid_formats_def
  valid_resolutions_def select_video_def insert_job_def submit_def result_name_def
  path_join_def UPLOAD_FOLDER_def TRANSCODED_FOLDER_def Let_def

lemmas run_simps = transcode_video_cpu_intensive.simps try_block.simps

lemma jobs_update_job:
  "jobs (update_job s k f) k' = (if k' = k then map_option f (jobs s k) else jobs s k')"
  by (simp add: update_job_def split: option.splits)

lemma jobs_set_processing:
  "jobs (set_processing s k ts) k' =
     (if k' = k then map_option (\<lambda>j. j\<lparr>j_status := Processing, j_started_at := Some ts\<rparr>) (jobs s k)
      else jobs s k')"
  by (simp add: set_processing_def jobs_update_job)

lemma jobs_set_completed:
  "jobs (set_completed s k ts el) k' =
     (if k' = k
      then map_option (\<lambda>j. j\<lparr>j_status := Completed, j_progress := 100,
             j_completed_at := Some ts, j_processing_time := Some el\<rparr>) (jobs s k)
      else jobs s k')"
  by (simp add: set_completed_def jobs_update_job)

lemma jobs_set_failed:
  "jobs (set_failed s k msg) k' =
     (if k' = k then map_option (\<lambda>j. j\<lparr>j_status := Failed, j_error_message := Some msg\<rparr>) (jobs s k)
      else jobs s k')"
  by (simp add: set_failed_def jobs_update_job)

lemma jobs_insert_job:
  "insert_job s now k uid vid f r b rf = Inr s' \<Longrightarrow>
   jobs s' = (jobs s)(k \<mapsto>
        \<lparr>j_user_id = uid, j_video_id = vid, j_target_format = f,
         j_target_resolution = r, j_target_bitrate = b, j_status = Queued,
         j_progress = 0, j_result_filename = Some rf, j_created_at = now,
         j_started_at = None, j_completed_at = None, j_processing_time = None,
         j_error_message = None\<rparr>) \<and> jobs s k = None \<and> f \<noteq> JNull
   \<and> videos s' = videos s \<and> backlog s' = backlog s \<and> transcoded_files s' = transcoded_files s"
  by (auto simp: insert_job_def split: if_splits)

lemma insert_job_succeeds:
  "f \<noteq> JNull \<Longrightarrow> jobs s k = None \<Longrightarrow> \<exists>s'. insert_job s now k uid vid f r b rf = Inr s'"
  by (simp add: insert_job_def)

lemma select_video_cong: "videos s' = videos s \<Longrightarrow> select_video s' u ro v = select_video s u ro v"
  by (simp add: select_video_def)

lemma result_name_not_Nil: "result_name k f r \<noteq> []"
  by (simp add: result_name_def)

lemma valid_format_not_null: "f \<in> set valid_formats \<Longrightarrow> f \<noteq> JNull"
  by (auto simp: valid_formats_def)

text \<open>
  One run commits nothing, or the failure alone, or the move to processing, or the move
  to processing and then the failure or the completion.
\<close>

lemma run_cases:
  "transcode_video_cpu_intensive env (Task i out f r b k) s = [] \<or>
   (\<exists>e. transcode_video_cpu_intensive env (Task i out f r b k) s = [set_failed s k e]) \<or>
   transcode_video_cpu_intensive env (Task i out f r b k) s = [set_processing s k (started_ts env)] \<or>
   (\<exists>e. transcode_video_cpu_intensive env (Task i out f r b k) s =
      [set_processing s k (started_ts env),
       set_failed (set_processing s k (started_ts env)) k e]) \<or>
   transcode_video_cpu_intensive env (Task i out f r b k) s =
      [set_processing s k (started_ts env),
       set_completed (set_processing s k (started_ts env)) k (completed_ts env)
         (end_time env - start_time env)]"
  by (auto simp: transcode_video_cpu_intensive.simps try_block.simps except_block_def Let_def
      split: option.splits sum.splits engine_result.splits)

text \<open>
  A run writes the row of its own job and nothing else: every other row, the videos, the
  queue of the executor and the files are in each state it commits what they were before.
\<close>

lemma run_touches_own_row:
  assumes "st \<in> set (transcode_video_cpu_intensive env (Task i out f r b k) s)"
  shows "(\<forall>k'. k' \<noteq> k \<longrightarrow> jobs st k' = jobs s k') \<and> videos st = videos s \<and>
         backlog st = backlog s \<and> transcoded_files st = transcoded_files s \<and>
         dom (jobs st) = dom (jobs s)"
proof -
  have upd: "(\<forall>k'. k' \<noteq> k \<longrightarrow> jobs (update_job s0 k g) k' = jobs s0 k') \<and>
      videos (update_job s0 k g) = videos s0 \<and> backlog (update_job s0 k g) = backlog s0 \<and>
      transcoded_files (update_job s0 k g) = transcoded_files s0 \<and>
      dom (jobs (update_job s0 k g)) = dom (jobs s0)" for s0 g
    by (auto simp: update_job_def split: option.splits)
  from run_cases [of env i out f r b k s] assms show ?thesis
    by (elim disjE exE; simp add: set_processing_def set_failed_def set_completed_def upd)
      (elim disjE; simp add: upd)+
qed

text \<open>
  A command is built for every target whose format is a string.
\<close>

lemma build_cmd_string_format:
  "\<exists>cmd. build_cmd i out (JStr f) r b = Inr cmd"
  by (simp add: build_cmd_def codec_settings_def Let_def)


lemma demo_build_cmd:
  "\<exists>cmd. build_cmd ''uploads/a.mp4'' ''transcoded/j_h264_720p.mp4''
     (JStr ''h264'') (JStr ''720p'') (JStr ''2M'') = Inr cmd"
  by (simp add: build_cmd_def codec_settings_def Let_def)

text \<open>
  The update to processing removes no row and sets the status of its own row.
\<close>

lemma set_processing_keeps_rows:
  "(jobs (set_processing s k ts) k' = None) = (jobs s k' = None)"
  by (simp add: jobs_set_processing)

lemma status_set_processing:
  "map_option j_status (jobs (set_processing s k ts) k') =
     (if k' = k then (if jobs s k = None then None else Some Processing)
      else map_option j_status (jobs s k'))"
  by (cases "jobs s k") (simp_all add: jobs_set_processing)

subsection \<open>The example inputs, evaluated\<close>

lemma demo_submitted_eq:
  "transcode_video 0 ''j'' demo_store 1 ''user'' ''v1'' Map.empty =
     (Accepted ''j'' (JStr ''h264'') (JStr ''720p''), demo_submitted)"
  by (simp add: demo_submitted_def handler_defs demo_store_def)

lemma demo_submitted_job:
  "jobs demo_submitted ''j'' =
     Some \<lparr>j_user_id = 1, j_video_id = ''v1'', j_target_format = JStr ''h264'',
         j_target_resolution = JStr ''720p'', j_target_bitrate = JStr ''2M'', j_status = Queued,
         j_progress = 0, j_result_filename = Some ''j_h264_720p.mp4'', j_created_at = 0,
         j_started_at = None, j_completed_at = None, j_processing_time = None,
         j_error_message = None\<rparr>"
  by (simp add: demo_submitted_def handler_defs demo_store_def)

lemma demo_submitted_backlog: "backlog demo_submitted = [demo_task]"
  by (simp add: demo_submitted_def handler_defs demo_store_def demo_task_def)

lemma demo_completed_job:
  "jobs demo_completed ''j'' =
     Some \<lparr>j_user_id = 1, j_video_id = ''v1'', j_target_format = JStr ''h264'',
         j_target_resolution = JStr ''720p'', j_target_bitrate = JStr ''2M'', j_status = Completed,
         j_progress = 100, j_result_filename = Some ''j_h264_720p.mp4'', j_created_at = 0,
         j_started_at = Some 10, j_completed_at = Some 17, j_processing_time = Some 7000,
         j_error_message = None\<rparr>"
  using demo_build_cmd
  by (auto simp: demo_completed_def store_after_def demo_task_def run_simps demo_env_def
      jobs_set_processing jobs_set_completed demo_submitted_job Let_def)

lemma demo_inserted:
  "\<exists>s1. insert_job demo_store 0 ''j'' 1 ''v1'' (JStr ''h264'') (JStr ''720p'') (JStr ''2M'')
          (result_name ''j'' (JStr ''h264'') (JStr ''720p'')) = Inr s1 \<and>
        jobs demo_submitted ''j'' = jobs s1 ''j''"
  by (simp add: insert_job_def demo_store_def demo_submitted_job result_name_def)

lemma demo_uuids_inj: "inj_on demo_uuids A"
proof (rule inj_onI)
  fix x y
  assume "demo_uuids x = demo_uuids y"
  then have "length (demo_uuids x) = length (demo_uuids y)" by simp
  then show "x = y" by (simp add: demo_uuids_def)
qed

lemma demo_five_submitted_eq:
  "batch_transcode 0 demo_uuids demo_store_five 1 ''user''
     [''v1'', ''v2'', ''v3'', ''v4'', ''v5''] Map.empty =
   (BatchAccepted [''j'', ''jj'', ''jjj'', ''jjjj'', ''jjjjj''], demo_five_submitted)"
  by (simp add: demo_five_submitted_def handler_defs demo_store_five_def demo_uuids_def)

lemma demo_five_backlog:
  "backlog demo_five_submitted =
     [Task ''uploads/a.mp4'' ''transcoded/j_h264_720p.mp4'' (JStr ''h264'') (JStr ''720p'') (JStr ''2M'') ''j'',
      Task ''uploads/b.mp4'' ''transcoded/jj_h264_720p.mp4'' (JStr ''h264'') (JStr ''720p'') (JStr ''2M'') ''jj'',
      Task ''uploads/c.mp4'' ''transcoded/jjj_h264_720p.mp4'' (JStr ''h264'') (JStr ''720p'') (JStr ''2M'') ''jjj'',
      Task ''uploads/d.mp4'' ''transcoded/jjjj_h264_720p.mp4'' (JStr ''h264'') (JStr ''720p'') (JStr ''2M'') ''jjjj'',
      Task ''uploads/e.mp4'' ''transcoded/jjjjj_h264_720p.mp4'' (JStr ''h264'') (JStr ''720p'') (JStr ''2M'') ''jjjjj'']"
  by (simp add: demo_five_submitted_def handler_defs demo_store_five_def demo_uuids_def)

lemma demo_five_statuses:
  "map_option j_status (jobs demo_five_submitted ''j'') = Some Queued"
  "map_option j_status (jobs demo_five_submitted ''jj'') = Some Queued"
  "map_option j_status (jobs demo_five_submitted ''jjj'') = Some Queued"
  "map_option j_status (jobs demo_five_submitted ''jjjj'') = Some Queued"
  "map_option j_status (jobs demo_five_submitted ''jjjjj'') = Some Queued"
  by (simp_all add: demo_five_submitted_def handler_defs demo_store_five_def demo_uuids_def)

lemma demo_five_rows:
  "jobs demo_five_submitted ''j'' \<noteq> None" "jobs demo_five_submitted ''jj'' \<noteq> None"
  "jobs demo_five_submitted ''jjj'' \<noteq> None" "jobs demo_five_submitted ''jjjj'' \<noteq> None"
  "jobs demo_five_submitted ''jjjjj'' \<noteq> None"
  using demo_five_statuses by auto

lemma demo_env_locked_fields:
  "connect_raises demo_env_locked = None" "update_processing_raises demo_env_locked = None"
  "update_final_raises demo_env_locked = Some ''database is locked''"
  "\<forall>cmd. \<exists>returncode stderr. engine demo_env_locked cmd = Exited returncode stderr"
  "handler_connect_raises demo_env_locked \<noteq> None \<or> handler_update_raises demo_env_locked \<noteq> None"
  by (simp_all add: demo_env_locked_def demo_env_def)

section \<open>Validation at intake\<close>

text \<open>
  The single submission answers 400 and leaves the store as it is when the format or the
  resolution is outside its list.
\<close>

lemma transcode_video_validates:
  assumes "dict_get data ''target_format'' (JStr ''h264'') \<notin> set valid_formats \<or>
           dict_get data ''target_resolution'' (JStr ''720p'') \<notin> set valid_resolutions"
  shows "\<exists>msg. transcode_video now fresh_id s current_user_id current_user_role vid data =
           (BadRequest msg, s)"
  using assms by (auto simp: transcode_video_def Let_def)

text \<open>
  A single submission that is accepted has a format and a resolution from the lists, has
  created its job by the \<open>INSERT\<close>, and has handed one task for it to the executor.
\<close>

lemma transcode_video_accepted:
  assumes "transcode_video now fresh_id s u ro vid data = (Accepted k f r, s')"
  shows "\<exists>s1 filename b.
           f \<in> set valid_formats \<and> r \<in> set valid_resolutions \<and>
           insert_job s now k u vid f r b (result_name k f r) = Inr s1 \<and>
           jobs s' = jobs s1 \<and>
           backlog s' = backlog s @
             [Task (path_join UPLOAD_FOLDER filename)
                (path_join TRANSCODED_FOLDER (result_name k f r)) f r b k]"
  using assms
  by (auto simp: transcode_video_def Let_def submit_def insert_job_def
      split: if_splits option.splits sum.splits)

text \<open>
  Claim C1. Every submission path that creates a job rejects a target format or
  resolution outside the lists (h264, h265, vp9 and 480p, 720p, 1080p, 4K) before a job
  record is created. The batch handler does not: for the format \<open>xvid\<close> and the
  resolution \<open>8K\<close>, neither of them in the lists, it answers 202 with a job id and the
  store holds a queued job with that target, where the single submission answers 400 for
  the same request object and leaves the store unchanged.
\<close>

theorem batch_transcode_accepts_unknown_target:
  "JStr ''xvid'' \<notin> set valid_formats \<and> JStr ''8K'' \<notin> set valid_resolutions \<and>
   fst (batch_transcode 0 demo_uuids demo_store 1 ''user'' [''v1'']
          [''target_format'' \<mapsto> JStr ''xvid'', ''target_resolution'' \<mapsto> JStr ''8K'']) =
     BatchAccepted [''j''] \<and>
   map_option (\<lambda>j. (j_target_format j, j_target_resolution j, j_status j))
     (jobs (snd (batch_transcode 0 demo_uuids demo_store 1 ''user'' [''v1'']
          [''target_format'' \<mapsto> JStr ''xvid'', ''target_resolution'' \<mapsto> JStr ''8K''])) ''j'') =
     Some (JStr ''xvid'', JStr ''8K'', Queued) \<and>
   transcode_video 0 ''j'' demo_store 1 ''user'' ''v1''
          [''target_format'' \<mapsto> JStr ''xvid'', ''target_resolution'' \<mapsto> JStr ''8K''] =
     (BadRequest ''Invalid target format'', demo_store)"
  by (simp add: handler_defs demo_store_def demo_uuids_def)

section \<open>The fields of a job over its lifetime\<close>

text \<open>
  Claim C2, as stated, fails at creation: the job a submission has just created is queued
  and its result file name is already set.
\<close>

theorem result_filename_set_while_queued:
  "map_option (\<lambda>j. (j_status j, j_result_filename j, j_error_message j))
     (jobs (snd (transcode_video 0 ''j'' demo_store 1 ''user'' ''v1'' Map.empty)) ''j'') =
   Some (Queued, Some ''j_h264_720p.mp4'', None)"
  using demo_submitted_job by (simp add: demo_submitted_def)

text \<open>
  Claim C2, amended. Take a job from the moment the \<open>INSERT\<close> of a submission handler
  has created it, through any later store in which its row is still as created, and
  through every store state the run of its task commits. In each of these states the row
  exists, its result file name is the non-empty name given at creation whatever the
  status is, and its error message is set exactly when its status is failed.
\<close>

theorem job_result_and_error_fields:
  assumes ins: "insert_job s now k uid vid f r b (result_name k f r) = Inr s1"
    and same: "jobs s2 k = jobs s1 k"
    and st: "st \<in> set (s2 # transcode_video_cpu_intensive env (Task i out f' r' b' k) s2)"
  shows "\<exists>j. jobs st k = Some j \<and> j_result_filename j = Some (result_name k f r) \<and>
           result_name k f r \<noteq> [] \<and> ((j_error_message j \<noteq> None) = (j_status j = Failed))"
proof -
  from jobs_insert_job [OF ins] same
  obtain j0 where j0: "jobs s2 k = Some j0" "j_result_filename j0 = Some (result_name k f r)"
    "j_error_message j0 = None" "j_status j0 = Queued"
    by simp
  from run_cases [of env i out f' r' b' k s2] st j0 show ?thesis
    by (auto simp: jobs_set_processing jobs_set_failed jobs_set_completed result_name_not_Nil)
qed

text \<open>
  The theorem at the example submission and the run in which the engine succeeds.
\<close>

theorem job_result_and_error_fields_witness:
  "\<exists>j. jobs (store_after demo_env demo_task demo_submitted) ''j'' = Some j \<and>
       j_result_filename j = Some (result_name ''j'' (JStr ''h264'') (JStr ''720p'')) \<and>
       result_name ''j'' (JStr ''h264'') (JStr ''720p'') \<noteq> [] \<and>
       ((j_error_message j \<noteq> None) = (j_status j = Failed))"
proof -
  from demo_inserted obtain s1
    where ins: "insert_job demo_store 0 ''j'' 1 ''v1'' (JStr ''h264'') (JStr ''720p'')
          (JStr ''2M'') (result_name ''j'' (JStr ''h264'') (JStr ''720p'')) = Inr s1"
      and same: "jobs demo_submitted ''j'' = jobs s1 ''j''"
    by blast
  have st: "store_after demo_env demo_task demo_submitted \<in>
      set (demo_submitted # transcode_video_cpu_intensive demo_env
             (Task ''uploads/a.mp4'' ''transcoded/j_h264_720p.mp4''
                (JStr ''h264'') (JStr ''720p'') (JStr ''2M'') ''j'') demo_submitted)"
    unfolding store_after_def demo_task_def by (rule last_in_set) simp
  show ?thesis
    using job_result_and_error_fields [OF ins same st] .
qed

section \<open>The order of the statuses\<close>

text \<open>
  Claim C3, as stated, fails: the store rejects no update. The update to processing,
  applied to the completed job of the example, is accepted and moves it back.
\<close>

theorem store_accepts_backward_update:
  "map_option j_status (jobs demo_completed ''j'') = Some Completed \<and>
   map_option j_status (jobs (set_processing demo_completed ''j'' 20) ''j'') = Some Processing"
  by (simp add: jobs_set_processing demo_completed_job)

text \<open>
  Claim C3, amended. The updates check nothing, but the task of a job runs once, on a job
  that is queued, and so the statuses of the job, from its creation through the states
  its run commits, are one of five sequences: it stays queued; it goes from queued to
  failed; from queued to processing; from queued to processing to failed; from queued to
  processing to completed.
\<close>

theorem job_status_sequences:
  assumes ins: "insert_job s now k uid vid f r b rf = Inr s1"
    and same: "jobs s2 k = jobs s1 k"
  shows "map (\<lambda>st. map_option j_status (jobs st k))
           (s2 # transcode_video_cpu_intensive env (Task i out f' r' b' k) s2)
         \<in> {[Some Queued], [Some Queued, Some Failed], [Some Queued, Some Processing],
            [Some Queued, Some Processing, Some Failed],
            [Some Queued, Some Processing, Some Completed]}"
proof -
  from jobs_insert_job [OF ins] same
  obtain j0 where j0: "jobs s2 k = Some j0" "j_status j0 = Queued"
    by simp
  from run_cases [of env i out f' r' b' k s2] j0 show ?thesis
    by (auto simp: jobs_set_processing jobs_set_failed jobs_set_completed)
qed

text \<open>
  The theorem at the example submission and the run in which the engine succeeds.
\<close>

theorem job_status_sequences_witness:
  "map (\<lambda>st. map_option j_status (jobs st ''j''))
     (demo_submitted # transcode_video_cpu_intensive demo_env
        (Task ''uploads/a.mp4'' ''transcoded/j_h264_720p.mp4''
           (JStr ''h264'') (JStr ''720p'') (JStr ''2M'') ''j'') demo_submitted)
   \<in> {[Some Queued], [Some Queued, Some Failed], [Some Queued, Some Processing],
      [Some Queued, Some Processing, Some Failed],
      [Some Queued, Some Processing, Some Completed]}"
proof -
  from demo_inserted obtain s1
    where ins: "insert_job demo_store 0 ''j'' 1 ''v1'' (JStr ''h264'') (JStr ''720p'')
          (JStr ''2M'') (result_name ''j'' (JStr ''h264'') (JStr ''720p'')) = Inr s1"
      and same: "jobs demo_submitted ''j'' = jobs s1 ''j''"
    by blast
  show ?thesis
    using job_status_sequences [OF ins same] .
qed

section \<open>The engine exits with a non-zero code\<close>

text \<open>
  Claim C4, as stated, fails: after an exit with code 1 the job of the example is failed
  and carries the diagnostic output, but neither a completion time nor a processing
  time.
\<close>

theorem nonzero_exit_leaves_no_timestamp:
  "map_option (\<lambda>j. (j_status j, j_error_message j, j_completed_at j, j_processing_time j))
     (jobs (store_after (demo_env\<lparr>engine := \<lambda>cmd. Exited 1 ''unsupported codec''\<rparr>)
        demo_task demo_submitted) ''j'') =
   Some (Failed, Some ''unsupported codec'', None, None)"
  using demo_build_cmd
  by (auto simp: store_after_def demo_task_def run_simps demo_env_def
      jobs_set_processing jobs_set_failed demo_submitted_job Let_def)

text \<open>
  Claim C4, amended. When the store accesses of the run succeed and the engine exits with
  a non-zero code, the job is failed afterwards and its error message is the diagnostic
  output of the engine; its completion time and its processing time are what they were
  before the run (unset, for a job that has not run).
\<close>

theorem nonzero_exit_marks_failed:
  assumes job: "jobs s k = Some j"
    and store: "connect_raises env = None" "update_processing_raises env = None"
      "update_final_raises env = None"
    and cmd: "build_cmd i out f r b = Inr cmd"
    and exit: "engine env cmd = Exited returncode stderr" "returncode \<noteq> 0"
  shows "\<exists>j'. jobs (store_after env (Task i out f r b k) s) k = Some j' \<and>
           j_status j' = Failed \<and> j_error_message j' = Some stderr \<and>
           j_completed_at j' = j_completed_at j \<and>
           j_processing_time j' = j_processing_time j"
  using assms
  by (simp add: store_after_def run_simps Let_def jobs_set_failed jobs_set_processing)

text \<open>
  The theorem at the example submission, with an engine that exits with code 1.
\<close>

theorem nonzero_exit_marks_failed_witness:
  "\<exists>j'. jobs (store_after (demo_env\<lparr>engine := \<lambda>cmd. Exited 1 ''unsupported codec''\<rparr>)
            (Task ''uploads/a.mp4'' ''transcoded/j_h264_720p.mp4''
               (JStr ''h264'') (JStr ''720p'') (JStr ''2M'') ''j'') demo_submitted) ''j'' = Some j' \<and>
         j_status j' = Failed \<and> j_error_message j' = Some ''unsupported codec'' \<and>
         j_completed_at j' = None \<and> j_processing_time j' = None"
proof -
  from demo_build_cmd obtain cmd
    where cmd: "build_cmd ''uploads/a.mp4'' ''transcoded/j_h264_720p.mp4''
       (JStr ''h264'') (JStr ''720p'') (JStr ''2M'') = Inr cmd"
    by blast
  have exit: "engine (demo_env\<lparr>engine := \<lambda>cmd. Exited 1 ''unsupported codec''\<rparr>) cmd =
      Exited 1 ''unsupported codec''" "(1::int) \<noteq> 0"
    by simp_all
  have store: "connect_raises (demo_env\<lparr>engine := \<lambda>cmd. Exited 1 ''unsupported codec''\<rparr>) = None"
    "update_processing_raises (demo_env\<lparr>engine := \<lambda>cmd. Exited 1 ''unsupported codec''\<rparr>) = None"
    "update_final_raises (demo_env\<lparr>engine := \<lambda>cmd. Exited 1 ''unsupported codec''\<rparr>) = None"
    by (simp_all add: demo_env_def)
  show ?thesis
    using nonzero_exit_marks_failed [OF demo_submitted_job store cmd exit]
    by simp
qed

section \<open>An exception during the run\<close>

text \<open>
  The exceptions that can leave the \<open>try\<close> block: the one of the connection, of the update
  to processing, of the building of the command, of the engine call, or of the final update.
\<close>

lemma try_block_exception_cases:
  "snd (try_block env (Task i out f r b k) s) = Some e \<longleftrightarrow>
     connect_raises env = Some e \<or>
     connect_raises env = None \<and>
       (update_processing_raises env = Some e \<or>
        update_processing_raises env = None \<and>
          (build_cmd i out f r b = Inl e \<or>
           (\<exists>cmd. build_cmd i out f r b = Inr cmd \<and>
              (engine env cmd = Raised e \<or>
               (\<exists>returncode stderr. engine env cmd = Exited returncode stderr \<and>
                  update_final_raises env = Some e)))))"
  by (auto simp: try_block.simps Let_def split: option.splits sum.splits engine_result.splits)

text \<open>
  When one does, the block has committed the update to processing, if the connection and
  that update went through, and nothing else.
\<close>

lemma try_block_raised_committed:
  assumes "snd (try_block env (Task i out f r b k) s) = Some e"
  shows "fst (try_block env (Task i out f r b k) s) =
           (if connect_raises env = None \<and> update_processing_raises env = None
            then [set_processing s k (started_ts env)] else [])"
  using assms
  by (auto simp: try_block.simps Let_def split: option.splits sum.splits engine_result.splits
      if_splits)

text \<open>
  When the connection and the update of the exception handler do not raise, the handler
  does what it is written for: the job is failed after the run and its error message is
  the text of the exception.
\<close>

lemma exception_forces_failed:
  assumes job: "jobs s k = Some j"
    and raised: "snd (try_block env (Task i out f r b k) s) = Some e"
    and handler: "handler_connect_raises env = None" "handler_update_raises env = None"
  shows "\<exists>j'. jobs (store_after env (Task i out f r b k) s) k = Some j' \<and>
           j_status j' = Failed \<and> j_error_message j' = Some e"
  using assms
  by (auto simp: store_after_def run_simps except_block_def Let_def jobs_set_failed
        jobs_set_processing split: option.splits sum.splits engine_result.splits if_splits)

text \<open>
  So at the example submission, with an engine call that raises.
\<close>

lemma exception_forces_failed_example:
  "\<exists>j'. jobs (store_after (demo_env\<lparr>engine := \<lambda>cmd. Raised ''No such file or directory: ffmpeg''\<rparr>)
            (Task ''uploads/a.mp4'' ''transcoded/j_h264_720p.mp4''
               (JStr ''h264'') (JStr ''720p'') (JStr ''2M'') ''j'') demo_submitted) ''j'' = Some j' \<and>
         j_status j' = Failed \<and> j_error_message j' = Some ''No such file or directory: ffmpeg''"
proof -
  have raised: "snd (try_block (demo_env\<lparr>engine := \<lambda>cmd. Raised ''No such file or directory: ffmpeg''\<rparr>)
      (Task ''uploads/a.mp4'' ''transcoded/j_h264_720p.mp4''
         (JStr ''h264'') (JStr ''720p'') (JStr ''2M'') ''j'') demo_submitted) =
      Some ''No such file or directory: ffmpeg''"
    using demo_build_cmd by (auto simp: run_simps demo_env_def Let_def)
  have handler:
    "handler_connect_raises (demo_env\<lparr>engine := \<lambda>cmd. Raised ''No such file or directory: ffmpeg''\<rparr>) = None"
    "handler_update_raises (demo_env\<lparr>engine := \<lambda>cmd. Raised ''No such file or directory: ffmpeg''\<rparr>) = None"
    by (simp_all add: demo_env_def)
  show ?thesis
    using exception_forces_failed [OF demo_submitted_job raised handler] .
qed

text \<open>
  The handler reaches the store through a connection and an update of its own, outside
  any \<open>try\<close>. When one of them raises, the handler writes nothing, and the store after the
  run is the store after the update to processing, if that had been committed, and the
  store before the run otherwise.
\<close>

lemma except_block_fails:
  "handler_connect_raises env \<noteq> None \<or> handler_update_raises env \<noteq> None \<Longrightarrow>
   except_block env k e s = []"
  by (auto simp: except_block_def split: option.splits)

lemma handler_fails_keeps_last:
  assumes raised: "snd (try_block env (Task i out f r b k) s) = Some e"
    and handler: "handler_connect_raises env \<noteq> None \<or> handler_update_raises env \<noteq> None"
  shows "store_after env (Task i out f r b k) s =
           (if connect_raises env = None \<and> update_processing_raises env = None
            then set_processing s k (started_ts env) else s)"
proof -
  obtain committed where tb: "try_block env (Task i out f r b k) s = (committed, Some e)"
    using raised by (cases "try_block env (Task i out f r b k) s") simp
  have committed: "committed =
      (if connect_raises env = None \<and> update_processing_raises env = None
       then [set_processing s k (started_ts env)] else [])"
    using try_block_raised_committed [OF raised] tb by simp
  have "transcode_video_cpu_intensive env (Task i out f r b k) s = committed"
    by (simp add: transcode_video_cpu_intensive.simps tb except_block_fails [OF handler])
  then show ?thesis
    by (simp add: store_after_def committed)
qed

text \<open>
  An engine that exits, followed by a final update that raises, is such an exception, and
  with a handler whose store access raises as well the run leaves its job in
  processing.
\<close>

lemma final_update_raises:
  assumes "connect_raises env = None" "update_processing_raises env = None"
    and "update_final_raises env = Some e"
    and "\<forall>cmd. \<exists>returncode stderr. engine env cmd = Exited returncode stderr"
  shows "snd (try_block env (Task i out (JStr f) r b k) s) = Some e"
proof -
  obtain cmd where cmd: "build_cmd i out (JStr f) r b = Inr cmd"
    using build_cmd_string_format by blast
  obtain returncode stderr where "engine env cmd = Exited returncode stderr"
    using assms(4) by blast
  then show ?thesis
    using assms(1-3) cmd by (simp add: try_block.simps Let_def)
qed

lemma locked_run_leaves_processing:
  assumes "connect_raises env = None" "update_processing_raises env = None"
    and "update_final_raises env = Some e"
    and "\<forall>cmd. \<exists>returncode stderr. engine env cmd = Exited returncode stderr"
    and "handler_connect_raises env \<noteq> None \<or> handler_update_raises env \<noteq> None"
  shows "store_after env (Task i out (JStr f) r b k) s = set_processing s k (started_ts env)"
  using handler_fails_keeps_last [OF final_update_raises [OF assms(1-4)] assms(5)] assms(1,2)
  by simp

text \<open>
  Claim C5. An exception raised while a job is executed, after its record was moved to
  processing, forces the record to failed with the exception text as error message, so
  that no job is left in processing. The exception handler is written to do so and does
  not when its own access to the store raises. In the example the exception leaves the
  \<open>try\<close> block after the job was moved to processing, and after the run the job is in
  processing with no error message: once with an engine call that raises and a handler
  whose connection raises, once with a database that is locked at the final update and
  at the update of the handler.
\<close>

theorem failing_handler_leaves_processing:
  "snd (try_block (demo_env\<lparr>engine := \<lambda>cmd. Raised ''No such file or directory: ffmpeg'',
          handler_connect_raises := Some ''unable to open database file''\<rparr>)
        demo_task demo_submitted) = Some ''No such file or directory: ffmpeg'' \<and>
   map_option (\<lambda>j. (j_status j, j_error_message j))
     (jobs (store_after (demo_env\<lparr>engine := \<lambda>cmd. Raised ''No such file or directory: ffmpeg'',
          handler_connect_raises := Some ''unable to open database file''\<rparr>)
        demo_task demo_submitted) ''j'') =
   Some (Processing, None) \<and>
   snd (try_block demo_env_locked demo_task demo_submitted) = Some ''database is locked'' \<and>
   map_option (\<lambda>j. (j_status j, j_error_message j))
     (jobs (store_after demo_env_locked demo_task demo_submitted) ''j'') =
   Some (Processing, None)"
proof -
  have missing: "snd (try_block (demo_env\<lparr>engine := \<lambda>cmd. Raised ''No such file or directory: ffmpeg'',
          handler_connect_raises := Some ''unable to open database file''\<rparr>)
        demo_task demo_submitted) = Some ''No such file or directory: ffmpeg'' \<and>
   map_option (\<lambda>j. (j_status j, j_error_message j))
     (jobs (store_after (demo_env\<lparr>engine := \<lambda>cmd. Raised ''No such file or directory: ffmpeg'',
          handler_connect_raises := Some ''unable to open database file''\<rparr>)
        demo_task demo_submitted) ''j'') =
   Some (Processing, None)"
    using demo_build_cmd
    by (auto simp: store_after_def demo_task_def run_simps demo_env_def except_block_def
        jobs_set_processing demo_submitted_job Let_def)
  have locked: "snd (try_block demo_env_locked demo_task demo_submitted) =
      Some ''database is locked''"
    unfolding demo_task_def by (rule final_update_raises [OF demo_env_locked_fields(1-4)])
  have "store_after demo_env_locked demo_task demo_submitted =
      set_processing demo_submitted ''j'' (started_ts demo_env_locked)"
    unfolding demo_task_def by (rule locked_run_leaves_processing [OF demo_env_locked_fields])
  then have stuck: "map_option (\<lambda>j. (j_status j, j_error_message j))
     (jobs (store_after demo_env_locked demo_task demo_submitted) ''j'') = Some (Processing, None)"
    by (simp add: jobs_set_processing demo_submitted_job)
  show ?thesis
    using missing locked stuck by simp
qed

section \<open>The command line built for a target\<close>

lemma lower_h264: "lower ''h264'' = ''h264''"
  by (simp add: lower_def lower_char_def)

lemma video_filters_not_Nil: "video_filters r \<noteq> []"
  by (simp add: video_filters_def)

text \<open>
  Claim C6. For the target format \<^verbatim>\<open>h264\<close> and the target resolution \<^verbatim>\<open>720p\<close> the
  command handed to the engine holds, after the input, one filter chain that starts with
  the lanczos scale to 1280x720 and goes on with the fixed sharpen, colour and denoise
  filters, and then the libx264 codec settings. For every format string and every
  resolution the part of the command between the input and the audio settings is
  determined by the format and the resolution alone: the paths and the bitrate have no
  influence on it.
\<close>

theorem build_cmd_h264_720p:
  "(\<forall>input_path output_path target_bitrate.
      build_cmd input_path output_path (JStr ''h264'') (JStr ''720p'') target_bitrate =
        Inr ([''ffmpeg'', ''-i'', input_path, ''-y'',
              ''-vf'',
              ''scale=1280:720:flags=lanczos,unsharp=5:5:1.0:5:5:0.0,eq=contrast=1.1:brightness=0.02:saturation=1.1,hqdn3d=4:3:6:4.5'',
              ''-c:v'', ''libx264'', ''-preset'', ''veryslow'', ''-crf'', ''18'',
              ''-x264-params'', ''me=umh:subme=10:ref=16:b-adapt=2:direct=auto:weightp=2'',
              ''-c:a'', ''aac'', ''-b:a'', ''128k''] @
             (if truthy target_bitrate then [''-b:v'', str target_bitrate] else []) @
             [output_path]))
   \<and> (\<forall>f target_resolution. \<exists>fixed. \<forall>input_path output_path target_bitrate.
        build_cmd input_path output_path (JStr f) target_resolution target_bitrate =
          Inr ([''ffmpeg'', ''-i'', input_path, ''-y''] @ fixed @
               [''-c:a'', ''aac'', ''-b:a'', ''128k''] @
               (if truthy target_bitrate then [''-b:v'', str target_bitrate] else []) @
               [output_path]))"
proof (intro conjI allI)
  fix input_path output_path target_bitrate
  show "build_cmd input_path output_path (JStr ''h264'') (JStr ''720p'') target_bitrate =
        Inr ([''ffmpeg'', ''-i'', input_path, ''-y'',
              ''-vf'',
              ''scale=1280:720:flags=lanczos,unsharp=5:5:1.0:5:5:0.0,eq=contrast=1.1:brightness=0.02:saturation=1.1,hqdn3d=4:3:6:4.5'',
              ''-c:v'', ''libx264'', ''-preset'', ''veryslow'', ''-crf'', ''18'',
              ''-x264-params'', ''me=umh:subme=10:ref=16:b-adapt=2:direct=auto:weightp=2'',
              ''-c:a'', ''aac'', ''-b:a'', ''128k''] @
             (if truthy target_bitrate then [''-b:v'', str target_bitrate] else []) @
             [output_path])"
    by (simp add: build_cmd_def codec_settings_def video_filters_def lower_h264)
next
  fix f target_resolution
  obtain codec where codec: "codec_settings (JStr f) = Inr codec"
    by (simp add: codec_settings_def)
  show "\<exists>fixed. \<forall>input_path output_path target_bitrate.
        build_cmd input_path output_path (JStr f) target_resolution target_bitrate =
          Inr ([''ffmpeg'', ''-i'', input_path, ''-y''] @ fixed @
               [''-c:a'', ''aac'', ''-b:a'', ''128k''] @
               (if truthy target_bitrate then [''-b:v'', str target_bitrate] else []) @
               [output_path])"
    by (rule exI [of _ "[''-vf'', join '','' (video_filters target_resolution)] @ codec"])
       (simp add: build_cmd_def codec video_filters_not_Nil)
qed

section \<open>Batch submission\<close>

text \<open>
  With a format and a resolution from the lists, the single submission is the ownership
  query, the \<open>INSERT\<close> and the hand-over to the executor.
\<close>

lemma transcode_video_valid:
  assumes "dict_get data ''target_format'' (JStr ''h264'') \<in> set valid_formats"
    and "dict_get data ''target_resolution'' (JStr ''720p'') \<in> set valid_resolutions"
  shows "transcode_video now k s u ro v data =
     (case select_video s u ro v of
        None \<Rightarrow> (NotFound ''Video not found'', s)
      | Some filename \<Rightarrow>
          (case insert_job s now k u v (dict_get data ''target_format'' (JStr ''h264''))
                  (dict_get data ''target_resolution'' (JStr ''720p''))
                  (dict_get data ''target_bitrate'' (JStr ''2M''))
                  (result_name k (dict_get data ''target_format'' (JStr ''h264''))
                     (dict_get data ''target_resolution'' (JStr ''720p''))) of
             Inl e \<Rightarrow> (ServerError e, s)
           | Inr s' \<Rightarrow>
               (Accepted k (dict_get data ''target_format'' (JStr ''h264''))
                  (dict_get data ''target_resolution'' (JStr ''720p'')),
                submit s' (Task (path_join UPLOAD_FOLDER filename)
                  (path_join TRANSCODED_FOLDER
                     (result_name k (dict_get data ''target_format'' (JStr ''h264''))
                        (dict_get data ''target_resolution'' (JStr ''720p''))))
                  (dict_get data ''target_format'' (JStr ''h264''))
                  (dict_get data ''target_resolution'' (JStr ''720p''))
                  (dict_get data ''target_bitrate'' (JStr ''2M'')) k))))"
  using assms by (simp add: transcode_video_def Let_def split: option.splits)

text \<open>
  The loop of the batch handler, for a format that is not \<open>NULL\<close> and job ids that are
  new and pairwise different: it returns the ids drawn for the videos the requester may
  read, in order; a job of one of these ids is queued and carries the target; no other
  row changes.
\<close>

lemma batch_loop_result:
  assumes "f \<noteq> JNull"
    and "\<forall>k. i \<le> k \<and> k < i + length vs \<longrightarrow> jobs s (uuids k) = None"
    and "inj_on uuids {i..<i + length vs}"
  shows "\<exists>s'. batch_loop now uuids i u ro f r b vs acc s =
           (Inr (acc @ map (\<lambda>(k, v). uuids k)
                    (filter (\<lambda>(k, v). select_video s u ro v \<noteq> None) (enumerate i vs))), s') \<and>
           videos s' = videos s \<and>
           (\<forall>k. k \<notin> uuids ` {i..<i + length vs} \<longrightarrow> jobs s' k = jobs s k) \<and>
           (\<forall>k \<in> set (map (\<lambda>(k, v). uuids k)
                    (filter (\<lambda>(k, v). select_video s u ro v \<noteq> None) (enumerate i vs))).
              \<exists>j. jobs s' k = Some j \<and> j_status j = Queued \<and> j_user_id j = u \<and>
                  j_target_format j = f \<and> j_target_resolution j = r \<and> j_target_bitrate j = b) \<and>
           (\<forall>k. i \<le> k \<and> k < i + length vs \<and>
                uuids k \<notin> set (map (\<lambda>(k, v). uuids k)
                    (filter (\<lambda>(k, v). select_video s u ro v \<noteq> None) (enumerate i vs)))
              \<longrightarrow> jobs s' (uuids k) = None)"
  using assms
proof (induction vs arbitrary: i acc s)
  case Nil
  then show ?case by simp
next
  case (Cons v vs)
  have later: "uuids k \<noteq> uuids i" if "Suc i \<le> k" "k < Suc i + length vs" for k
  proof
    assume eq: "uuids k = uuids i"
    have "k = i"
      using inj_onD [OF Cons.prems(3) eq] that by simp
    then show False using that by simp
  qed
  have fresh': "\<forall>k. Suc i \<le> k \<and> k < Suc i + length vs \<longrightarrow> jobs s' (uuids k) = None"
    if frame: "\<forall>k. k \<noteq> uuids i \<longrightarrow> jobs s' k = jobs s k" for s'
  proof (intro allI impI)
    fix k
    assume k: "Suc i \<le> k \<and> k < Suc i + length vs"
    have "uuids k \<noteq> uuids i"
      using later k by simp
    moreover have "jobs s (uuids k) = None"
      using Cons.prems(2) k by simp
    ultimately show "jobs s' (uuids k) = None"
      using frame by simp
  qed
  have inj': "inj_on uuids {Suc i..<Suc i + length vs}"
    using Cons.prems(3) by (rule inj_on_subset) auto
  have "{i..<Suc (i + length vs)} = insert i {Suc i..<Suc (i + length vs)}"
    by auto
  then have img: "uuids ` {i..<Suc (i + length vs)} =
      insert (uuids i) (uuids ` {Suc i..<Suc (i + length vs)})"
    by simp
  have split_k: "k = i \<or> Suc i \<le> k" if "i \<le> k" for k
    using that by auto
  show ?case
  proof (cases "select_video s u ro v")
    case None
    have frame0: "\<forall>k. k \<noteq> uuids i \<longrightarrow> jobs s k = jobs s k" by simp
    from Cons.IH [OF Cons.prems(1) fresh' [OF frame0] inj', of acc]
    obtain s' where s': "batch_loop now uuids (Suc i) u ro f r b vs acc s =
           (Inr (acc @ map (\<lambda>(k, v). uuids k)
                    (filter (\<lambda>(k, v). select_video s u ro v \<noteq> None) (enumerate (Suc i) vs))), s')"
      "videos s' = videos s"
      "\<forall>k. k \<notin> uuids ` {Suc i..<Suc i + length vs} \<longrightarrow> jobs s' k = jobs s k"
      "\<forall>k \<in> set (map (\<lambda>(k, v). uuids k)
                    (filter (\<lambda>(k, v). select_video s u ro v \<noteq> None) (enumerate (Suc i) vs))).
              \<exists>j. jobs s' k = Some j \<and> j_status j = Queued \<and> j_user_id j = u \<and>
                  j_target_format j = f \<and> j_target_resolution j = r \<and> j_target_bitrate j = b"
      "\<forall>k. Suc i \<le> k \<and> k < Suc i + length vs \<and>
                uuids k \<notin> set (map (\<lambda>(k, v). uuids k)
                    (filter (\<lambda>(k, v). select_video s u ro v \<noteq> None) (enumerate (Suc i) vs)))
              \<longrightarrow> jobs s' (uuids k) = None"
      by auto
    have i_none: "jobs s' (uuids i) = None"
    proof -
      have "uuids i \<notin> uuids ` {Suc i..<Suc i + length vs}"
        using later by (auto simp: image_iff) metis
      then have "jobs s' (uuids i) = jobs s (uuids i)" using s'(3) by simp
      then show ?thesis using Cons.prems(2) by simp
    qed
    show ?thesis
      apply (rule exI [of _ s'])
      using None s' i_none
      apply (simp add: Let_def img)
      apply (intro conjI allI impI)
      subgoal for k using split_k [of k] by auto
      done
  next
    case (Some filename)
    from insert_job_succeeds [OF Cons.prems(1), of s "uuids i"] Cons.prems(2)
    obtain s1 where s1: "insert_job s now (uuids i) u v f r b (result_name (uuids i) f r) = Inr s1"
      by (metis le_refl less_add_same_cancel1 length_Cons zero_less_Suc)
    note j1 = jobs_insert_job [OF s1]
    define s2 where "s2 = submit s1 (Task (path_join UPLOAD_FOLDER filename)
         (path_join TRANSCODED_FOLDER (result_name (uuids i) f r)) f r b (uuids i))"
    have s2: "jobs s2 = jobs s1" "videos s2 = videos s"
      using j1 by (simp_all add: s2_def submit_def)
    have frame: "\<forall>k. k \<noteq> uuids i \<longrightarrow> jobs s2 k = jobs s k"
      using j1 s2 by simp
    have sel: "\<And>x. select_video s2 u ro x = select_video s u ro x"
      using s2(2) by (rule select_video_cong)
    from Cons.IH [OF Cons.prems(1) fresh' [OF frame] inj', of "acc @ [uuids i]"]
    obtain s' where s': "batch_loop now uuids (Suc i) u ro f r b vs (acc @ [uuids i]) s2 =
           (Inr ((acc @ [uuids i]) @ map (\<lambda>(k, v). uuids k)
                    (filter (\<lambda>(k, v). select_video s u ro v \<noteq> None) (enumerate (Suc i) vs))), s')"
      "videos s' = videos s"
      "\<forall>k. k \<notin> uuids ` {Suc i..<Suc i + length vs} \<longrightarrow> jobs s' k = jobs s2 k"
      "\<forall>k \<in> set (map (\<lambda>(k, v). uuids k)
                    (filter (\<lambda>(k, v). select_video s u ro v \<noteq> None) (enumerate (Suc i) vs))).
              \<exists>j. jobs s' k = Some j \<and> j_status j = Queued \<and> j_user_id j = u \<and>
                  j_target_format j = f \<and> j_target_resolution j = r \<and> j_target_bitrate j = b"
      "\<forall>k. Suc i \<le> k \<and> k < Suc i + length vs \<and>
                uuids k \<notin> set (map (\<lambda>(k, v). uuids k)
                    (filter (\<lambda>(k, v). select_video s u ro v \<noteq> None) (enumerate (Suc i) vs)))
              \<longrightarrow> jobs s' (uuids k) = None"
      by (auto simp: sel s2(2))
    have i_job: "jobs s' (uuids i) = jobs s1 (uuids i)"
    proof -
      have "uuids i \<notin> uuids ` {Suc i..<Suc i + length vs}"
        using later by (auto simp: image_iff) metis
      then show ?thesis using s'(3) s2(1) by simp
    qed
    show ?thesis
      apply (rule exI [of _ s'])
      using Some s1 s' i_job j1 frame
      apply (simp add: Let_def img s2_def [symmetric])
      apply (intro conjI allI impI)
      subgoal for k using split_k [of k] by auto
      done
  qed
qed

text \<open>
  For a target from the lists the loop does what the single submission does, video by
  video.
\<close>

lemma batch_loop_refines:
  assumes f: "dict_get data ''target_format'' (JStr ''h264'') \<in> set valid_formats"
    and r: "dict_get data ''target_resolution'' (JStr ''720p'') \<in> set valid_resolutions"
    and "\<forall>k. i \<le> k \<and> k < i + length vs \<longrightarrow> jobs s (uuids k) = None"
    and "inj_on uuids {i..<i + length vs}"
  shows "batch_loop now uuids i u ro (dict_get data ''target_format'' (JStr ''h264''))
           (dict_get data ''target_resolution'' (JStr ''720p''))
           (dict_get data ''target_bitrate'' (JStr ''2M'')) vs acc s =
         (Inr (fst (SubmitBatch_spec now uuids i u ro data vs acc s)),
          snd (SubmitBatch_spec now uuids i u ro data vs acc s))"
  using assms(3,4)
proof (induction vs arbitrary: i acc s)
  case Nil
  then show ?case by simp
next
  case (Cons v vs)
  have later: "uuids k \<noteq> uuids i" if "Suc i \<le> k" "k < Suc i + length vs" for k
  proof
    assume eq: "uuids k = uuids i"
    have "k = i"
      using inj_onD [OF Cons.prems(2) eq] that by simp
    then show False using that by simp
  qed
  have inj': "inj_on uuids {Suc i..<Suc i + length vs}"
    using Cons.prems(2) by (rule inj_on_subset) auto
  show ?case
  proof (cases "select_video s u ro v")
    case None
    have "\<forall>k. Suc i \<le> k \<and> k < Suc i + length vs \<longrightarrow> jobs s (uuids k) = None"
      using Cons.prems(1) by simp
    from Cons.IH [OF this inj', of acc] None show ?thesis
      by (simp add: transcode_video_valid [OF f r] Let_def)
  next
    case (Some filename)
    have "jobs s (uuids i) = None"
      using Cons.prems(1) by simp
    from insert_job_succeeds [OF valid_format_not_null [OF f] this]
    obtain s1 where s1: "insert_job s now (uuids i) u v
        (dict_get data ''target_format'' (JStr ''h264''))
        (dict_get data ''target_resolution'' (JStr ''720p''))
        (dict_get data ''target_bitrate'' (JStr ''2M''))
        (result_name (uuids i) (dict_get data ''target_format'' (JStr ''h264''))
           (dict_get data ''target_resolution'' (JStr ''720p''))) = Inr s1"
      by blast
    note j1 = jobs_insert_job [OF s1]
    define s2 where "s2 = submit s1 (Task (path_join UPLOAD_FOLDER filename)
         (path_join TRANSCODED_FOLDER
            (result_name (uuids i) (dict_get data ''target_format'' (JStr ''h264''))
               (dict_get data ''target_resolution'' (JStr ''720p''))))
         (dict_get data ''target_format'' (JStr ''h264''))
         (dict_get data ''target_resolution'' (JStr ''720p''))
         (dict_get data ''target_bitrate'' (JStr ''2M'')) (uuids i))"
    have "jobs s2 = jobs s1"
      by (simp add: s2_def submit_def)
    then have "\<forall>k. Suc i \<le> k \<and> k < Suc i + length vs \<longrightarrow> jobs s2 (uuids k) = None"
      using j1 later Cons.prems(1) by simp
    from Cons.IH [OF this inj', of "acc @ [uuids i]"] Some s1 show ?thesis
      by (simp add: transcode_video_valid [OF f r] Let_def s2_def)
  qed
qed

lemma length_filter_enumerate:
  "length (filter (\<lambda>(k, v). P v) (enumerate i vs)) = length (filter P vs)"
  by (induction vs arbitrary: i) auto

lemma distinct_enumerated_ids:
  assumes "inj_on uuids {i..<i + length vs}"
  shows "distinct (map (\<lambda>(k, v). uuids k) (filter (\<lambda>(k, v). P v) (enumerate i vs)))"
proof -
  have "inj_on (\<lambda>(k, v). uuids k) (set (enumerate i vs))"
  proof (rule inj_onI)
    fix p q
    assume p: "p \<in> set (enumerate i vs)" and q: "q \<in> set (enumerate i vs)"
      and eq: "(case p of (k, v) \<Rightarrow> uuids k) = (case q of (k, v) \<Rightarrow> uuids k)"
    from p q have bounds: "fst p \<in> {i..<i + length vs}" "fst q \<in> {i..<i + length vs}"
      and nth: "vs ! (fst p - i) = snd p" "vs ! (fst q - i) = snd q"
      by (auto simp: in_set_enumerate_eq)
    from eq have "uuids (fst p) = uuids (fst q)"
      by (simp add: case_prod_beta)
    with assms bounds have "fst p = fst q"
      by (auto dest: inj_onD)
    with nth show "p = q"
      by (simp add: prod_eq_iff)
  qed
  then have "inj_on (\<lambda>(k, v). uuids k) (set (filter (\<lambda>(k, v). P v) (enumerate i vs)))"
    by (rule inj_on_subset) auto
  then show ?thesis
    by (simp add: distinct_map distinct_enumerate)
qed

text \<open>
  A batch with an empty list of videos is answered with 400 and leaves the store as it
  is.
\<close>

lemma batch_transcode_empty:
  "batch_transcode now uuids s u ro [] data = (BadRequest ''No video IDs provided'', s)"
  by (simp add: batch_transcode_def Let_def)

text \<open>
  Claim C7, as stated, fails in two places: the batch handler is not the single
  submission once per video. For the format \<open>xvid\<close> the single submission rejects the
  video, so that a batch made of single submissions returns no job id, and the batch
  handler returns one; and for an empty list of videos the batch handler answers 400
  where zero single submissions give an empty list of ids.
\<close>

theorem batch_transcode_differs_from_single:
  "fst (batch_transcode 0 demo_uuids demo_store 1 ''user'' [''v1'']
          [''target_format'' \<mapsto> JStr ''xvid'']) = BatchAccepted [''j''] \<and>
   fst (SubmitBatch_spec 0 demo_uuids 0 1 ''user'' [''target_format'' \<mapsto> JStr ''xvid'']
          [''v1''] [] demo_store) = [] \<and>
   fst (batch_transcode 0 demo_uuids demo_store 1 ''user'' [] Map.empty) =
     BadRequest ''No video IDs provided'' \<and>
   fst (SubmitBatch_spec 0 demo_uuids 0 1 ''user'' Map.empty [] [] demo_store) = []"
  by (simp add: handler_defs demo_store_def demo_uuids_def)

text \<open>
  Claim C7, amended. For a list of videos that is not empty, a format and a resolution
  from the lists, and job ids that are new and pairwise different, the batch handler
  answers 202 and has the effect of the single submission once per video, in order: the
  ids returned are those of the videos that pass the ownership query, one for each; they
  are pairwise different and new to the store, the job records after the batch are those
  before it and one for each returned id, and each of these is queued. So three videos
  of which one fails the ownership query give two ids and two queued job records.
\<close>

theorem batch_transcode_skips_inaccessible:
  assumes f: "dict_get data ''target_format'' (JStr ''h264'') \<in> set valid_formats"
    and r: "dict_get data ''target_resolution'' (JStr ''720p'') \<in> set valid_resolutions"
    and ne: "video_ids \<noteq> []"
    and fresh: "\<forall>i<length video_ids. jobs s (uuids i) = None"
    and inj: "inj_on uuids {..<length video_ids}"
  shows "\<exists>job_ids s'.
           batch_transcode now uuids s u ro video_ids data = (BatchAccepted job_ids, s') \<and>
           SubmitBatch_spec now uuids 0 u ro data video_ids [] s = (job_ids, s') \<and>
           length job_ids = length (filter (\<lambda>v. select_video s u ro v \<noteq> None) video_ids) \<and>
           distinct job_ids \<and>
           set job_ids \<inter> dom (jobs s) = {} \<and>
           dom (jobs s') = dom (jobs s) \<union> set job_ids \<and>
           (\<forall>k \<in> set job_ids. \<exists>j. jobs s' k = Some j \<and> j_status j = Queued)"
proof -
  define ids where "ids = map (\<lambda>(k, v). uuids k)
     (filter (\<lambda>(k, v). select_video s u ro v \<noteq> None) (enumerate 0 video_ids))"
  define F where "F = dict_get data ''target_format'' (JStr ''h264'')"
  define R where "R = dict_get data ''target_resolution'' (JStr ''720p'')"
  define B where "B = dict_get data ''target_bitrate'' (JStr ''2M'')"
  have fresh0: "\<forall>k. 0 \<le> k \<and> k < 0 + length video_ids \<longrightarrow> jobs s (uuids k) = None"
    using fresh by simp
  have inj0: "inj_on uuids {0..<0 + length video_ids}"
    using inj by (simp add: atLeast0LessThan)
  have Fnn: "F \<noteq> JNull"
    using f by (simp add: F_def valid_format_not_null)
  from batch_loop_result [OF Fnn fresh0 inj0, of now u ro R B "[]"]
  obtain s' where loop: "batch_loop now uuids 0 u ro F R B video_ids [] s = (Inr ids, s')"
    and frame: "\<forall>k. k \<notin> uuids ` {0..<0 + length video_ids} \<longrightarrow> jobs s' k = jobs s k"
    and new: "\<forall>k \<in> set ids. \<exists>j. jobs s' k = Some j \<and> j_status j = Queued"
    and unused: "\<forall>k. 0 \<le> k \<and> k < 0 + length video_ids \<and> uuids k \<notin> set ids
                   \<longrightarrow> jobs s' (uuids k) = None"
    unfolding ids_def by fastforce
  have spec: "SubmitBatch_spec now uuids 0 u ro data video_ids [] s = (ids, s')"
    using batch_loop_refines [OF f r fresh0 inj0, of now u ro "[]"] loop
    by (simp add: F_def R_def B_def prod_eq_iff)
  have answer: "batch_transcode now uuids s u ro video_ids data = (BatchAccepted ids, s')"
    using loop ne by (simp add: batch_transcode_def Let_def F_def R_def B_def)
  have len: "length ids = length (filter (\<lambda>v. select_video s u ro v \<noteq> None) video_ids)"
    unfolding ids_def length_map by (rule length_filter_enumerate)
  have dist: "distinct ids"
    unfolding ids_def by (rule distinct_enumerated_ids [OF inj0])
  have sub: "set ids \<subseteq> uuids ` {0..<0 + length video_ids}"
    by (auto simp: ids_def in_set_enumerate_eq)
  have disj: "set ids \<inter> dom (jobs s) = {}"
    using sub fresh by auto
  have dom: "dom (jobs s') = dom (jobs s) \<union> set ids"
  proof (rule set_eqI)
    fix k
    show "k \<in> dom (jobs s') \<longleftrightarrow> k \<in> dom (jobs s) \<union> set ids"
    proof (cases "k \<in> set ids")
      case True
      then show ?thesis using new by auto
    next
      case False
      show ?thesis
      proof (cases "k \<in> uuids ` {0..<0 + length video_ids}")
        case True
        then obtain m where m: "k = uuids m" "m < length video_ids" by auto
        then have "jobs s' k = None" "jobs s k = None"
          using unused False fresh by auto
        then show ?thesis using False by auto
      next
        case False
        then show ?thesis using frame \<open>k \<notin> set ids\<close> by (auto simp: dom_def)
      qed
    qed
  qed
  show ?thesis
    using answer spec len dist disj dom new by blast
qed

text \<open>
  The theorem at three videos of which the second belongs to another user.
\<close>

theorem batch_transcode_skips_inaccessible_witness:
  "length (filter (\<lambda>v. select_video demo_store 1 ''user'' v \<noteq> None) [''v1'', ''v2'', ''v3'']) = 2 \<and>
   (\<exists>job_ids s'.
      batch_transcode 0 demo_uuids demo_store 1 ''user'' [''v1'', ''v2'', ''v3''] Map.empty =
        (BatchAccepted job_ids, s') \<and>
      SubmitBatch_spec 0 demo_uuids 0 1 ''user'' Map.empty [''v1'', ''v2'', ''v3''] [] demo_store =
        (job_ids, s') \<and>
      length job_ids = 2 \<and> card (dom (jobs s')) = 2)"
proof -
  have f: "dict_get Map.empty ''target_format'' (JStr ''h264'') \<in> set valid_formats"
    and r: "dict_get Map.empty ''target_resolution'' (JStr ''720p'') \<in> set valid_resolutions"
    by (simp_all add: dict_get_def valid_formats_def valid_resolutions_def)
  have ne: "[''v1'', ''v2'', ''v3''] \<noteq> []"
    by simp
  have fresh: "\<forall>i<length [''v1'', ''v2'', ''v3'']. jobs demo_store (demo_uuids i) = None"
    by (simp add: demo_store_def)
  have two: "length (filter (\<lambda>v. select_video demo_store 1 ''user'' v \<noteq> None)
      [''v1'', ''v2'', ''v3'']) = 2"
    by (simp add: select_video_def demo_store_def)
  from batch_transcode_skips_inaccessible [OF f r ne fresh demo_uuids_inj, of 0 1 "''user''"]
  obtain job_ids s' where
    res: "batch_transcode 0 demo_uuids demo_store 1 ''user'' [''v1'', ''v2'', ''v3''] Map.empty =
        (BatchAccepted job_ids, s')"
      "SubmitBatch_spec 0 demo_uuids 0 1 ''user'' Map.empty [''v1'', ''v2'', ''v3''] [] demo_store =
        (job_ids, s')"
    and len: "length job_ids =
      length (filter (\<lambda>v. select_video demo_store 1 ''user'' v \<noteq> None) [''v1'', ''v2'', ''v3''])"
    and dist: "distinct job_ids"
    and dom: "dom (jobs s') = dom (jobs demo_store) \<union> set job_ids"
    by blast
  have "dom (jobs s') = set job_ids"
    using dom by (simp add: demo_store_def)
  then have "card (dom (jobs s')) = length job_ids"
    using dist by (simp add: distinct_card)
  then show ?thesis
    using res len two by auto
qed

section \<open>The number of jobs in processing\<close>

text \<open>
  Claim C8. With the four workers of the executor, at most four jobs are in status
  processing at the same instant, and the other submitted jobs stay queued until a worker
  is free. The status rows do not keep to this bound, because a run can end and leave its
  row in processing. In the example one batch submits five jobs, all queued; their tasks
  are executed one after another, each to its end, with the database locked at the final
  update and at the update of the exception handler; afterwards no task is being
  executed and all five jobs are in status processing, more than the executor has
  workers.
\<close>

theorem finished_runs_leave_processing_rows:
  "fst (batch_transcode 0 demo_uuids demo_store_five 1 ''user''
          [''v1'', ''v2'', ''v3'', ''v4'', ''v5''] Map.empty) =
     BatchAccepted [''j'', ''jj'', ''jjj'', ''jjjj'', ''jjjjj''] \<and>
   map (\<lambda>k. map_option j_status (jobs demo_five_submitted k))
     [''j'', ''jj'', ''jjj'', ''jjjj'', ''jjjjj''] =
     [Some Queued, Some Queued, Some Queued, Some Queued, Some Queued] \<and>
   map (\<lambda>k. map_option j_status (jobs (run_in_turn demo_env_locked demo_five_submitted) k))
     [''j'', ''jj'', ''jjj'', ''jjjj'', ''jjjjj''] =
     [Some Processing, Some Processing, Some Processing, Some Processing, Some Processing] \<and>
   max_workers <
     length (filter (\<lambda>k. map_option j_status
                (jobs (run_in_turn demo_env_locked demo_five_submitted) k) = Some Processing)
        [''j'', ''jj'', ''jjj'', ''jjjj'', ''jjjjj''])"
proof -
  have run: "\<And>i out f r b k s. store_after demo_env_locked (Task i out (JStr f) r b k) s =
      set_processing s k (started_ts demo_env_locked)"
    by (rule locked_run_leaves_processing [OF demo_env_locked_fields])
  have after:
    "map_option j_status (jobs (run_in_turn demo_env_locked demo_five_submitted) ''j'') = Some Processing"
    "map_option j_status (jobs (run_in_turn demo_env_locked demo_five_submitted) ''jj'') = Some Processing"
    "map_option j_status (jobs (run_in_turn demo_env_locked demo_five_submitted) ''jjj'') = Some Processing"
    "map_option j_status (jobs (run_in_turn demo_env_locked demo_five_submitted) ''jjjj'') = Some Processing"
    "map_option j_status (jobs (run_in_turn demo_env_locked demo_five_submitted) ''jjjjj'') = Some Processing"
    by (simp_all add: run_in_turn_def demo_five_backlog run status_set_processing
        set_processing_keeps_rows demo_five_rows del: map_option_eq_Some)
  show ?thesis
    using demo_five_submitted_eq
    by (simp add: after demo_five_statuses max_workers_def del: map_option_eq_Some)
qed

section \<open>Defaults of a single submission\<close>

text \<open>
  Claim C9. A single submission whose request object leaves out the format, the
  resolution or the bitrate is not rejected for that: for a video the requester may read
  and a new job id, with every format and resolution that is given taken from the lists,
  the answer is 202 and the job created is queued and holds, for each field left out, its
  default (\<open>h264\<close>, \<open>720p\<close>, \<open>2M\<close>), and the given value otherwise.
\<close>

theorem transcode_video_defaults:
  assumes video: "select_video s current_user_id current_user_role vid = Some filename"
    and fresh: "jobs s fresh_id = None"
    and fmt: "data ''target_format'' = None \<or>
              (\<exists>v. data ''target_format'' = Some v \<and> v \<in> set valid_formats)"
    and res: "data ''target_resolution'' = None \<or>
              (\<exists>v. data ''target_resolution'' = Some v \<and> v \<in> set valid_resolutions)"
  shows "\<exists>s' j.
           transcode_video now fresh_id s current_user_id current_user_role vid data =
             (Accepted fresh_id
                (case data ''target_format'' of None \<Rightarrow> JStr ''h264'' | Some v \<Rightarrow> v)
                (case data ''target_resolution'' of None \<Rightarrow> JStr ''720p'' | Some v \<Rightarrow> v), s') \<and>
           jobs s' fresh_id = Some j \<and> j_status j = Queued \<and>
           j_target_format j =
             (case data ''target_format'' of None \<Rightarrow> JStr ''h264'' | Some v \<Rightarrow> v) \<and>
           j_target_resolution j =
             (case data ''target_resolution'' of None \<Rightarrow> JStr ''720p'' | Some v \<Rightarrow> v) \<and>
           j_target_bitrate j =
             (case data ''target_bitrate'' of None \<Rightarrow> JStr ''2M'' | Some v \<Rightarrow> v)"
proof -
  have f: "dict_get data ''target_format'' (JStr ''h264'') \<in> set valid_formats"
    using fmt by (auto simp: dict_get_def valid_formats_def)
  have r: "dict_get data ''target_resolution'' (JStr ''720p'') \<in> set valid_resolutions"
    using res by (auto simp: dict_get_def valid_resolutions_def)
  have n: "dict_get data ''target_format'' (JStr ''h264'') \<noteq> JNull"
    using f by (auto simp: valid_formats_def)
  show ?thesis
    using f r n video fresh
    by (simp add: transcode_video_def Let_def insert_job_def submit_def)
       (simp add: dict_get_def)
qed

text \<open>
  The theorem at a request object that leaves out all three fields.
\<close>

theorem transcode_video_defaults_witness:
  "\<exists>s' j. transcode_video 0 ''j'' demo_store 1 ''user'' ''v1'' Map.empty =
            (Accepted ''j'' (JStr ''h264'') (JStr ''720p''), s') \<and>
          jobs s' ''j'' = Some j \<and> j_status j = Queued \<and>
          j_target_format j = JStr ''h264'' \<and> j_target_resolution j = JStr ''720p'' \<and>
          j_target_bitrate j = JStr ''2M''"
proof -
  have video: "select_video demo_store 1 ''user'' ''v1'' = Some ''a.mp4''"
    by (simp add: select_video_def demo_store_def)
  have fresh: "jobs demo_store ''j'' = None"
    by (simp add: demo_store_def)
  show ?thesis
    using transcode_video_defaults [OF video fresh, of Map.empty 0] by simp
qed

section \<open>Download of a result\<close>

text \<open>
  Claim C10. The download sends a file only for a job that is completed and, unless the
  requester is an admin, owned by the requester; in every other case (no such job, a job
  that is queued, processing or failed, a job of another owner) it answers 404; and in
  every case the state is left as it was.
\<close>

theorem download_only_completed:
  "(\<forall>p. fst (download_transcoded_video s current_user_id current_user_role job_id) = SendFile p \<longrightarrow>
      (\<exists>j. jobs s job_id = Some j \<and> j_status j = Completed \<and>
           (current_user_role = ''admin'' \<or> j_user_id j = current_user_id)))
   \<and> (\<not> (\<exists>j. jobs s job_id = Some j \<and> j_status j = Completed \<and>
              (current_user_role = ''admin'' \<or> j_user_id j = current_user_id)) \<longrightarrow>
        download_transcoded_video s current_user_id current_user_role job_id =
          (NotFound ''Transcoded video not found'', s))
   \<and> snd (download_transcoded_video s current_user_id current_user_role job_id) = s"
  by (auto simp: download_transcoded_video_def Let_def split: option.splits if_splits)

text \<open>
  The theorem at the completed job of the example: its owner receives the file, another
  user does not, and before the run the owner does not either.
\<close>

theorem download_only_completed_witness:
  "fst (download_transcoded_video demo_completed 1 ''user'' ''j'') =
     SendFile ''transcoded/j_h264_720p.mp4'' \<and>
   (\<exists>j. jobs demo_completed ''j'' = Some j \<and> j_status j = Completed \<and> j_user_id j = 1) \<and>
   download_transcoded_video demo_completed 2 ''user'' ''j'' =
     (NotFound ''Transcoded video not found'', demo_completed) \<and>
   download_transcoded_video demo_submitted 1 ''user'' ''j'' =
     (NotFound ''Transcoded video not found'', demo_submitted)"
proof -
  have sent: "fst (download_transcoded_video demo_completed 1 ''user'' ''j'') =
      SendFile ''transcoded/j_h264_720p.mp4''"
    by (simp add: download_transcoded_video_def demo_completed_job path_join_def
        TRANSCODED_FOLDER_def Let_def) (simp add: demo_completed_def)
  have other: "\<not> (\<exists>j. jobs demo_completed ''j'' = Some j \<and> j_status j = Completed \<and>
      (''user'' = ''admin'' \<or> j_user_id j = 2))"
    by (simp add: demo_completed_job)
  have queued: "\<not> (\<exists>j. jobs demo_submitted ''j'' = Some j \<and> j_status j = Completed \<and>
      (''user'' = ''admin'' \<or> j_user_id j = 1))"
    by (simp add: demo_submitted_job)
  from sent download_only_completed [of demo_completed 1 "''user''" "''j''"]
  have owner: "\<exists>j. jobs demo_completed ''j'' = Some j \<and> j_status j = Completed \<and> j_user_id j = 1"
    by simp
  from other download_only_completed [of demo_completed 2 "''user''" "''j''"]
  have refused: "download_transcoded_video demo_completed 2 ''user'' ''j'' =
      (NotFound ''Transcoded video not found'', demo_completed)"
    by blast
  from queued download_only_completed [of demo_submitted 1 "''user''" "''j''"]
  have early: "download_transcoded_video demo_submitted 1 ''user'' ''j'' =
      (NotFound ''Transcoded video not found'', demo_submitted)"
    by blast
  show ?thesis
    using sent owner refused early by simp
qed

end
